theory Spec2Isabelle
  imports Complex_Main "HOL-Library.Word"
begin

section \<open>The external-texture bridge (surface\_texture\_external\_texture\_vk.cc)\<close>

subsection \<open>Data model\<close>

text \<open>
  Native objects are opaque to the bridge: a pointer is a handle (a number), a null
  pointer is \<open>None\<close>. The objects of the EGL toolkit and the GLES proc table answer
  \<open>IsValid()\<close>, which is all the bridge asks of them.
\<close>

type_synonym handle = nat

datatype media_status_t = AMEDIA_OK | AMEDIA_ERROR int

datatype AttachmentState = kUninitialized | kAttached | kDetached

record native_object =
  obj_handle :: handle
  IsValid :: bool

datatype image_format = AIMAGE_FORMAT_RGBA_8888 | AIMAGE_FORMAT_OTHER nat

datatype buffer_usage = AHARDWAREBUFFER_USAGE_GPU_SAMPLED_IMAGE | AHARDWAREBUFFER_USAGE_OTHER nat

text \<open>
  \<open>SkRect\<close> is Skia's rectangle of four \<open>float\<close> edges, each held as the real
  number the float stands for; \<open>width()\<close> is \<open>fRight - fLeft\<close> and \<open>height()\<close> is
  \<open>fBottom - fTop\<close>, computed in \<open>float\<close>. Infinities and NaN are outside the
  model.
\<close>

record SkRect =
  fLeft :: real
  fTop :: real
  fRight :: real
  fBottom :: real

text \<open>
  A \<open>float\<close> is an IEEE 754 binary32 number: 24 significant bits, exponents from
  -126 to 127, results rounded to the nearest float, ties to the even one. The exponent
  of a real is found by halving it until it is below 2 (at most 127 times) or doubling
  it until it is at least 1 (at most 126 times: what is smaller is subnormal and shares
  the exponent -126). A result of \<open>2^128\<close> or more is an infinity in the code and is
  not modelled.
\<close>

fun halvings :: "nat \<Rightarrow> real \<Rightarrow> nat" where
  "halvings 0 v = 0"
| "halvings (Suc n) v = (if v < 2 then 0 else Suc (halvings n (v / 2)))"

fun doublings :: "nat \<Rightarrow> real \<Rightarrow> nat" where
  "doublings 0 v = 0"
| "doublings (Suc n) v = (if 1 \<le> v then 0 else Suc (doublings n (v * 2)))"

definition float32_exponent :: "real \<Rightarrow> int" where
  "float32_exponent v =
    (if 1 \<le> \<bar>v\<bar> then int (halvings 127 \<bar>v\<bar>) else - int (doublings 126 \<bar>v\<bar>))"

definition round_half_even :: "real \<Rightarrow> int" where
  "round_half_even q =
    (let f = \<lfloor>q\<rfloor>; d = q - of_int f
     in if d < 1 / 2 then f else if 1 / 2 < d then f + 1 else if even f then f else f + 1)"

definition float32_round :: "real \<Rightarrow> real" where
  "float32_round v =
    (let ulp = 2 powi (float32_exponent v - 23)
     in of_int (round_half_even (v / ulp)) * ulp)"

text \<open>
  The implicit conversion of a \<open>float\<close> argument to the \<open>int32_t\<close> parameter of
  \<open>AImageReader_newWithUsage\<close> drops the fraction (rounds toward zero). A value out of
  the range of \<open>int32_t\<close> is undefined behaviour in C++ and is not modelled.
\<close>

definition float_to_int32 :: "real \<Rightarrow> int" where
  "float_to_int32 v = (if 0 \<le> v then \<lfloor>v\<rfloor> else \<lceil>v\<rceil>)"

record AHardwareBuffer_Desc =
  hb_width :: "32 word"
  hb_height :: "32 word"
  hb_layers :: "32 word"
  hb_format :: "32 word"
  hb_usage :: "64 word"
  hb_stride :: "32 word"

datatype StorageMode = kHostVisible | kDevicePrivate | kDeviceTransient

datatype PixelFormat = kUnknown | kR8G8B8A8UNormInt | kB8G8R8A8UNormInt | kOtherFormat nat

datatype TextureUsage = kUnknownUsage | kShaderRead | kShaderWrite | kRenderTarget

record TextureDescriptor =
  storage_mode :: StorageMode
  desc_size :: "int \<times> int"
  format :: PixelFormat
  mip_count :: nat
  usage :: TextureUsage

text \<open>
  A \<open>TextureVK\<close> built on an \<open>AndroidHardwareBufferTextureSourceVK\<close>. The source's
  constructor cannot return a failure; a failed import leaves a source whose
  \<open>IsValid()\<close> is false.
\<close>

record texture =
  tex_desc :: TextureDescriptor
  tex_buffer :: handle
  tex_hb_desc :: AHardwareBuffer_Desc
  tex_source_valid :: bool

datatype dl_image = DlImageImpeller texture

text \<open>
  The fields of \<open>SurfaceTextureExternalTextureVK\<close> that the two entry points read or
  write, with those of its base class (\<open>state\<close>, \<open>surface_texture\<close>, \<open>dl_image\<close>
  and the id). The members' trailing underscores are dropped, \<open>Id()\<close> is
  \<open>texture_id\<close>.
\<close>

record bridge =
  texture_id :: int
  state :: AttachmentState
  surface_texture :: "handle option"
  impeller_context :: "handle option"
  egl :: "native_object option"
  surface :: "native_object option"
  gl :: "native_object option"
  texture :: "texture option"
  dl_image :: "dl_image option"

text \<open>Every call into the platform, the EGL toolkit, JNI or the log is an event of the trace.\<close>

datatype event =
    LogError string
  | LogErrorHandle string handle
  | AImageReader_newWithUsage int int image_format buffer_usage nat
  | AImageReader_setImageListener handle
  | AImageReader_getWindow handle
  | Display_new
  | ChooseConfig
  | CreateContext
  | CreateWindowSurface handle
  | MakeCurrent
  | ProcTableGLES_new
  | GenTextures
  | JNI string
  | ASurfaceTexture_fromSurfaceTexture handle
  | ASurfaceTexture_detachFromGLContext handle
  | ASurfaceTexture_attachToGLContext handle nat
  | Attach int
  | Present handle
  | AImageReader_acquireLatestImage handle
  | AImage_getHardwareBuffer handle
  | AHardwareBuffer_describe handle
  | TextureSource_new TextureDescriptor handle
  | AImage_delete handle
  | Detach_base

text \<open>
  What the platform answers during one setup attempt: the status and the out-parameter of
  each NDK call, the objects the EGL toolkit hands back (a null pointer is \<open>None\<close>), and
  the references JNI returns. The last two fields are the status codes of
  \<open>ASurfaceTexture_detachFromGLContext\<close> and \<open>ASurfaceTexture_attachToGLContext\<close>
  (0 on success), which lines 202 and 203 discard.
\<close>

record setup_env =
  new_reader :: "media_status_t \<times> handle option"
  set_listener :: media_status_t
  get_window :: "media_status_t \<times> handle option"
  new_display :: native_object
  choose_config :: "native_object option"
  create_context :: "native_object option"
  create_surface :: "native_object option"
  make_current :: bool
  new_proc_table :: native_object
  gen_texture :: nat
  local_ref :: "handle option"
  weak_get_method :: "handle option"
  strong_ref :: "handle option"
  wrapper_class :: "handle option"
  surface_texture_method :: "handle option"
  surface_texture_ref :: "handle option"
  asurface_texture :: "handle option"
  detach_from_gl_context :: int
  attach_to_gl_context :: int

datatype call_result = Returned | NullDereference

type_synonym outcome = "call_result \<times> bridge \<times> event list"

subsection \<open>ProcessFrame\<close>

definition emit :: "event list \<Rightarrow> bridge \<times> event list \<times> bool \<Rightarrow> bridge \<times> event list \<times> bool" where
  "emit es r = (fst r, es @ fst (snd r), snd (snd r))"

definition abort :: "bridge \<Rightarrow> string \<Rightarrow> bridge \<times> event list \<times> bool" where
  "abort b msg = (b, [LogError msg], False)"

text \<open>
  Modelled from the spec: \<open>SurfaceTextureExternalTexture::Attach\<close> belongs to the base
  class, which is not among the sources. Section 4.1, step f: on full success, set
  state = Attached.
\<close>

definition Attach_base :: "bridge \<Rightarrow> bridge" where
  "Attach_base b = b\<lparr>state := kAttached\<rparr>"

text \<open>
  Lines 138 to 209: the JNI part of the setup, from the null check of
  \<open>surface_texture\<close> to \<open>Attach(Id())\<close>. \<open>h\<close> is the GLES texture handle.
\<close>

definition setup_jni :: "setup_env \<Rightarrow> nat \<Rightarrow> bridge \<Rightarrow> bridge \<times> event list \<times> bool" where
  "setup_jni env h b =
    (case surface_texture b of
       None \<Rightarrow> abort b ''Surface texture is null.''
     | Some st \<Rightarrow>
    emit [JNI ''AttachCurrentThread'', JNI ''NewLocalRef'']
    (case local_ref env of
       None \<Rightarrow> abort b ''Failed to get a reference to surface texture.''
     | Some wrapper \<Rightarrow>
    emit [JNI ''FindClass java/lang/ref/WeakReference'', JNI ''GetMethodID get'']
    (case weak_get_method env of
       None \<Rightarrow> abort b ''Failed to get getWeakReferenceMethod.''
     | Some getWeakReferenceMethod \<Rightarrow>
    emit [JNI ''CallObjectMethod get'']
    (case strong_ref env of
       None \<Rightarrow> abort b ''Failed to get strong reference.''
     | Some strong \<Rightarrow>
    emit [JNI ''GetObjectClass'']
    (case wrapper_class env of
       None \<Rightarrow> abort b ''Failed to get surfaceTextureWrapperClass.''
     | Some surfaceTextureWrapperClass \<Rightarrow>
    emit [JNI ''GetMethodID surfaceTexture'']
    (case surface_texture_method env of
       None \<Rightarrow> abort b ''Failed to get surfaceTexture method.''
     | Some getSurfaceTextureMethod \<Rightarrow>
    emit [JNI ''CallObjectMethod surfaceTexture'']
    (case surface_texture_ref env of
       None \<Rightarrow> abort b ''Failed to get surface texture.''
     | Some ref \<Rightarrow>
    emit [ASurfaceTexture_fromSurfaceTexture ref]
    (case asurface_texture env of
       None \<Rightarrow> abort b ''Failed to get ASurfaceTexture.''
     | Some ast \<Rightarrow>
         (Attach_base b,
          [ASurfaceTexture_detachFromGLContext ast,
           ASurfaceTexture_attachToGLContext ast h,
           Attach (texture_id b)],
          True)))))))))"

text \<open>
  Lines 85 to 136: the EGL display, config, context and surface, the GLES proc table and
  the texture handle. The members \<open>egl\<close>, \<open>surface\<close> and \<open>gl\<close> are assigned
  before the object is checked.
\<close>

definition setup_egl :: "setup_env \<Rightarrow> handle \<Rightarrow> bridge \<Rightarrow> bridge \<times> event list \<times> bool" where
  "setup_egl env window b =
    emit [Display_new]
    (let b1 = b\<lparr>egl := Some (new_display env)\<rparr> in
     if \<not> IsValid (new_display env) then abort b1 ''Failed to create EGL display.''
     else
    emit [ChooseConfig]
    (case choose_config env of
       None \<Rightarrow> abort b1 ''Failed to choose EGL config.''
     | Some config \<Rightarrow>
     if \<not> IsValid config then abort b1 ''Failed to choose EGL config.''
     else
    emit [CreateContext]
    (case create_context env of
       None \<Rightarrow> abort b1 ''Failed to create EGL context.''
     | Some context \<Rightarrow>
     if \<not> IsValid context then abort b1 ''Failed to create EGL context.''
     else
    emit [CreateWindowSurface window]
    (let b2 = b1\<lparr>surface := create_surface env\<rparr> in
     case create_surface env of
       None \<Rightarrow> abort b2 ''Failed to create EGL surface.''
     | Some s \<Rightarrow>
     if \<not> IsValid s then abort b2 ''Failed to create EGL surface.''
     else
    emit [LogErrorHandle ''Surface: '' (obj_handle s), MakeCurrent]
    (if \<not> make_current env then abort b2 ''Failed to make EGL context current.''
     else
    emit [ProcTableGLES_new]
    (let b3 = b2\<lparr>gl := Some (new_proc_table env)\<rparr> in
     if \<not> IsValid (new_proc_table env) then abort b3 ''Could not create OpenGL proc table.''
     else
    emit [GenTextures] (setup_jni env (gen_texture env) b3)))))))"

text \<open>
  Lines 44 to 210, the body of \<open>if (state == AttachmentState::kUninitialized)\<close>. The
  result is the bridge, the trace, and whether control falls out of the block (\<open>True\<close>)
  or the function has returned (\<open>False\<close>).
\<close>

definition setup_steps :: "setup_env \<Rightarrow> SkRect \<Rightarrow> bridge \<Rightarrow> bridge \<times> event list \<times> bool" where
  "setup_steps env bounds b =
    emit [AImageReader_newWithUsage
            (float_to_int32 (float32_round (fRight bounds - fLeft bounds)))
            (float_to_int32 (float32_round (fBottom bounds - fTop bounds)))
            AIMAGE_FORMAT_RGBA_8888
            AHARDWAREBUFFER_USAGE_GPU_SAMPLED_IMAGE 2]
    (case new_reader env of
       (AMEDIA_OK, Some reader) \<Rightarrow>
         emit [AImageReader_setImageListener reader]
         (case set_listener env of
            AMEDIA_OK \<Rightarrow>
              emit [AImageReader_getWindow reader]
              (case get_window env of
                 (AMEDIA_OK, Some window) \<Rightarrow> setup_egl env window b
               | _ \<Rightarrow> abort b ''Failed to get window from image reader.'')
          | _ \<Rightarrow> abort b ''Failed to set image listener.'')
     | _ \<Rightarrow> abort b ''Failed to create image reader.'')"

text \<open>
  Lines 212 to 220: \<open>surface->Present()\<close> and the final state update. Calling through
  a null \<open>surface\<close> is undefined behaviour; the model stops there with
  \<open>NullDereference\<close>.
\<close>

definition present_surface :: "bridge \<Rightarrow> event list \<Rightarrow> outcome" where
  "present_surface b evs =
    (case surface b of
       None \<Rightarrow> (NullDereference, b, evs)
     | Some s \<Rightarrow>
         (Returned,
          (if state b = kUninitialized then b\<lparr>state := kAttached\<rparr> else b),
          evs @ [Present (obj_handle s)]))"

definition ProcessFrame :: "setup_env \<Rightarrow> SkRect \<Rightarrow> bridge \<Rightarrow> outcome" where
  "ProcessFrame env bounds b =
    (if state b = kUninitialized then
       (case setup_steps env bounds b of
          (b', evs, True) \<Rightarrow> present_surface b' evs
        | (b', evs, False) \<Rightarrow> (Returned, b', evs))
     else present_surface b [])"

definition setup_succeeds :: "setup_env \<Rightarrow> SkRect \<Rightarrow> bridge \<Rightarrow> bool" where
  "setup_succeeds env bounds b = snd (snd (setup_steps env bounds b))"






subsection \<open>OnImageAvailable\<close>

text \<open>
  What the platform answers during one callback: the acquired image, its hardware
  buffer, the buffer's description, and whether the texture source built on the buffer
  is valid (whether the import worked).
\<close>

record frame_env =
  acquire_latest :: "media_status_t \<times> handle option"
  get_hardware_buffer :: "media_status_t \<times> handle option"
  describe :: AHardwareBuffer_Desc
  source_valid :: bool

text \<open>
  Lines 248 to 255. \<open>static_cast<int>\<close> of a \<open>uint32_t\<close> reads the same 32 bits as a
  signed number.
\<close>

definition make_descriptor :: "AHardwareBuffer_Desc \<Rightarrow> TextureDescriptor" where
  "make_descriptor hb_desc =
    \<lparr>storage_mode = kDevicePrivate,
     desc_size = (sint (hb_width hb_desc), sint (hb_height hb_desc)),
     format = kR8G8B8A8UNormInt,
     mip_count = 1,
     usage = kShaderRead\<rparr>"

definition OnImageAvailable :: "frame_env \<Rightarrow> handle \<Rightarrow> bridge \<Rightarrow> outcome" where
  "OnImageAvailable env reader b =
    (case acquire_latest env of
       (AMEDIA_OK, Some img) \<Rightarrow>
         (case get_hardware_buffer env of
            (AMEDIA_OK, Some buffer) \<Rightarrow>
              (let hb_desc = describe env;
                   desc = make_descriptor hb_desc;
                   evs = [LogError ''::OnImageAvailable'',
                          AImageReader_acquireLatestImage reader,
                          AImage_getHardwareBuffer img,
                          AHardwareBuffer_describe buffer]
               in case impeller_context b of
                    None \<Rightarrow> (NullDereference, b, evs)
                  | Some ctx \<Rightarrow>
                      (let t = \<lparr>tex_desc = desc, tex_buffer = buffer, tex_hb_desc = hb_desc,
                                tex_source_valid = source_valid env\<rparr>
                       in (Returned,
                           b\<lparr>texture := Some t, dl_image := Some (DlImageImpeller t)\<rparr>,
                           evs @ [TextureSource_new desc buffer])))
          | _ \<Rightarrow>
              (Returned, b,
               [LogError ''::OnImageAvailable'',
                AImageReader_acquireLatestImage reader,
                AImage_getHardwareBuffer img,
                LogError ''Failed to get hardware buffer.'']))
     | _ \<Rightarrow>
         (Returned, b,
          [LogError ''::OnImageAvailable'',
           AImageReader_acquireLatestImage reader,
           LogError ''Failed to acquire next image.'']))"

subsection \<open>Detach and the bridge's lifetime\<close>

text \<open>
  Modelled from the spec: \<open>SurfaceTextureExternalTextureVK::Detach\<close> only calls
  \<open>SurfaceTextureExternalTexture::Detach\<close> of the base class, which is not among the
  sources. Section 4.1: drop the current texture, tear down the render context, set
  state = Detached.
\<close>

definition Detach :: "bridge \<Rightarrow> outcome" where
  "Detach b =
    (Returned,
     b\<lparr>texture := None, dl_image := None, gl := None, surface := None, egl := None,
       state := kDetached\<rparr>,
     [Detach_base])"

text \<open>
  The constructor (lines 32 to 38) stores the context and hands the id and the Java
  reference to the base class; the members created during setup start out null. The
  base class is not among the sources: the initial attachment state, Uninitialized, is
  the one section 4.1 of the spec gives.
\<close>

definition new_bridge :: "handle option \<Rightarrow> int \<Rightarrow> handle option \<Rightarrow> bridge" where
  "new_bridge ctx i st =
    \<lparr>texture_id = i, state = kUninitialized, surface_texture = st,
     impeller_context = ctx, egl = None, surface = None, gl = None,
     texture = None, dl_image = None\<rparr>"

datatype call =
    CallProcessFrame setup_env SkRect
  | CallOnImageAvailable frame_env handle
  | CallDetach

fun do_call :: "call \<Rightarrow> bridge \<Rightarrow> outcome" where
  "do_call (CallProcessFrame env bounds) b = ProcessFrame env bounds b"
| "do_call (CallOnImageAvailable env reader) b = OnImageAvailable env reader b"
| "do_call CallDetach b = Detach b"

text \<open>A sequence of calls, one after the other; it stops at a null dereference.\<close>

fun run :: "call list \<Rightarrow> bridge \<Rightarrow> outcome" where
  "run [] b = (Returned, b, [])"
| "run (c # cs) b =
    (case do_call c b of
       (Returned, b', evs) \<Rightarrow>
         (case run cs b' of (r, b'', evs') \<Rightarrow> (r, b'', evs @ evs'))
     | (NullDereference, b', evs) \<Rightarrow> (NullDereference, b', evs))"

text \<open>The events of the setup block of \<open>ProcessFrame\<close>, the log lines apart.\<close>

fun setup_event :: "event \<Rightarrow> bool" where
  "setup_event (AImageReader_newWithUsage w h f u n) = True"
| "setup_event (AImageReader_setImageListener r) = True"
| "setup_event (AImageReader_getWindow r) = True"
| "setup_event Display_new = True"
| "setup_event ChooseConfig = True"
| "setup_event CreateContext = True"
| "setup_event (CreateWindowSurface w) = True"
| "setup_event MakeCurrent = True"
| "setup_event ProcTableGLES_new = True"
| "setup_event GenTextures = True"
| "setup_event (JNI s) = True"
| "setup_event (ASurfaceTexture_fromSurfaceTexture r) = True"
| "setup_event (ASurfaceTexture_detachFromGLContext t) = True"
| "setup_event (ASurfaceTexture_attachToGLContext t h) = True"
| "setup_event (Attach i) = True"
| "setup_event e = False"

fun is_new_reader :: "event \<Rightarrow> bool" where
  "is_new_reader (AImageReader_newWithUsage w h f u n) = True"
| "is_new_reader e = False"

fun is_present :: "event \<Rightarrow> bool" where
  "is_present (Present s) = True"
| "is_present e = False"

subsection \<open>Concrete platforms and frames\<close>

text \<open>A platform on which every setup step works, two on which one step fails, and three frames.\<close>

definition env_ok :: setup_env where
  "env_ok =
    \<lparr>new_reader = (AMEDIA_OK, Some 1), set_listener = AMEDIA_OK,
     get_window = (AMEDIA_OK, Some 2),
     new_display = \<lparr>obj_handle = 3, IsValid = True\<rparr>,
     choose_config = Some \<lparr>obj_handle = 4, IsValid = True\<rparr>,
     create_context = Some \<lparr>obj_handle = 5, IsValid = True\<rparr>,
     create_surface = Some \<lparr>obj_handle = 6, IsValid = True\<rparr>,
     make_current = True,
     new_proc_table = \<lparr>obj_handle = 7, IsValid = True\<rparr>,
     gen_texture = 8, local_ref = Some 9, weak_get_method = Some 10, strong_ref = Some 11,
     wrapper_class = Some 12, surface_texture_method = Some 13,
     surface_texture_ref = Some 14, asurface_texture = Some 15,
     detach_from_gl_context = 0, attach_to_gl_context = 0\<rparr>"

definition env_no_display :: setup_env where
  "env_no_display = env_ok\<lparr>new_display := \<lparr>obj_handle = 3, IsValid = False\<rparr>\<rparr>"

definition env_no_window :: setup_env where
  "env_no_window = env_ok\<lparr>get_window := (AMEDIA_ERROR (- 10000), None)\<rparr>"

definition env_attach_fails :: setup_env where
  "env_attach_fails = env_ok\<lparr>attach_to_gl_context := - 1\<rparr>"

definition bounds_640x480 :: SkRect where
  "bounds_640x480 = \<lparr>fLeft = 0, fTop = 0, fRight = 640, fBottom = 480\<rparr>"

text \<open>
  The floats nearest to 7.1, 3.3, 647.1 and 483.3: the exact differences are a little
  below 640 and 480, the float differences are 640 and 480.
\<close>

definition bounds_offset :: SkRect where
  "bounds_offset =
    \<lparr>fLeft = 14889779 / 2097152, fTop = 13841203 / 4194304,
     fRight = 5301043 / 8192, fBottom = 7918387 / 16384\<rparr>"

definition fresh :: bridge where
  "fresh = new_bridge (Some 100) 7 (Some 200)"

definition desc_640x480 :: AHardwareBuffer_Desc where
  "desc_640x480 =
    \<lparr>hb_width = 640, hb_height = 480, hb_layers = 1, hb_format = 1, hb_usage = 256,
     hb_stride = 640\<rparr>"

definition frame_ok :: frame_env where
  "frame_ok =
    \<lparr>acquire_latest = (AMEDIA_OK, Some 21), get_hardware_buffer = (AMEDIA_OK, Some 22),
     describe = desc_640x480, source_valid = True\<rparr>"

definition frame_no_buffer :: frame_env where
  "frame_no_buffer = frame_ok\<lparr>get_hardware_buffer := (AMEDIA_ERROR (- 10000), None)\<rparr>"

definition frame_bad_import :: frame_env where
  "frame_bad_import =
    \<lparr>acquire_latest = (AMEDIA_OK, Some 23), get_hardware_buffer = (AMEDIA_OK, Some 24),
     describe = desc_640x480, source_valid = False\<rparr>"

definition desc_wide :: AHardwareBuffer_Desc where
  "desc_wide = desc_640x480\<lparr>hb_width := 0x80000000\<rparr>"

definition frame_wide :: frame_env where
  "frame_wide = frame_ok\<lparr>describe := desc_wide\<rparr>"

section \<open>The stopwatch overlay (instrumentation\_dl.cc)\<close>

text \<open>
  Doubles and \<open>SkScalar\<close>s are modelled as reals in the overlay: rounding, infinities
  and NaN are outside the model, and so is a division by a zero frame budget (HOL gives
  0, the code an infinity or NaN). These are \<open>x()\<close>, \<open>y()\<close>, \<open>width()\<close> and
  \<open>height()\<close> of \<open>SkRect\<close> over the reals.
\<close>

definition rect_x :: "SkRect \<Rightarrow> real" where
  "rect_x r = fLeft r"

definition rect_y :: "SkRect \<Rightarrow> real" where
  "rect_y r = fTop r"

definition rect_width :: "SkRect \<Rightarrow> real" where
  "rect_width r = fRight r - fLeft r"

definition rect_height :: "SkRect \<Rightarrow> real" where
  "rect_height r = fBottom r - fTop r"

text \<open>Lines 12 to 14.\<close>

definition kOneFrameMS :: real where
  "kOneFrameMS = 1000 / 60"

definition kMaxSamples :: nat where
  "kMaxSamples = 120"

definition kMaxFrameMarkers :: nat where
  "kMaxFrameMarkers = 8"

text \<open>
  The base class \<open>Stopwatch\<close> is not among the sources. The record holds what
  \<open>Visualize\<close> reads of it: \<open>laps_[i].ToMillisecondsF()\<close> for each lap (a vector
  of \<open>kMaxSamples\<close> entries, read by index), \<open>current_sample_\<close>,
  \<open>LastLap().ToMillisecondsF()\<close> and \<open>GetFrameBudget().count()\<close>.
\<close>

record Stopwatch =
  laps :: "real list"
  current_sample :: nat
  last_lap :: real
  frame_budget :: real

datatype DlDrawStyle = kFill | kStroke | kStrokeAndFill

record DlPaint =
  color :: "32 word"
  stroke_width :: real
  draw_style :: DlDrawStyle

definition default_paint :: DlPaint where
  "default_paint = \<lparr>color = 0xFF000000, stroke_width = 0, draw_style = kFill\<rparr>"

text \<open>The canvas records what is drawn; a path is the list of its verbs.\<close>

datatype path_verb = MoveTo real real | LineTo real real | ClosePath

datatype draw_op =
    DrawRect SkRect DlPaint
  | DrawPath "path_verb list" DlPaint
  | DrawLine "real \<times> real" "real \<times> real" DlPaint

text \<open>Lines 115 to 126.\<close>

definition UnitFrameInterval :: "Stopwatch \<Rightarrow> real \<Rightarrow> real" where
  "UnitFrameInterval sw raster_time_ms = raster_time_ms / frame_budget sw"

definition UnitHeight :: "Stopwatch \<Rightarrow> real \<Rightarrow> real \<Rightarrow> real" where
  "UnitHeight sw raster_time_ms max_unit_interval =
    (let unit_height = UnitFrameInterval sw raster_time_ms / max_unit_interval
     in if unit_height > 1 then 1 else unit_height)"

text \<open>
  Lines 49 to 57: the loop over the samples, as a recursion over the indices it visits;
  \<open>unit_next_x\<close> is carried from one iteration to the next.
\<close>

fun graph_samples :: "Stopwatch \<Rightarrow> SkRect \<Rightarrow> real \<Rightarrow> nat list \<Rightarrow> real \<Rightarrow> path_verb list" where
  "graph_samples sw rect max_unit_interval [] unit_next_x = []"
| "graph_samples sw rect max_unit_interval (i # rest) unit_next_x =
    (let unit_x = unit_next_x;
         unit_next_x' = real (i + 1) / real kMaxSamples;
         sample_y = rect_y rect + rect_height rect *
                      (1 - UnitHeight sw (laps sw ! i) max_unit_interval)
     in [LineTo (rect_x rect + rect_width rect * unit_x) sample_y,
         LineTo (rect_x rect + rect_width rect * unit_next_x') sample_y]
        @ graph_samples sw rect max_unit_interval rest unit_next_x')"

text \<open>Lines 41 to 63: the path of the graph.\<close>

definition graph_path :: "Stopwatch \<Rightarrow> SkRect \<Rightarrow> path_verb list" where
  "graph_path sw rect =
    (let x = rect_x rect; y = rect_y rect;
         width = rect_width rect; height = rect_height rect;
         bottom = y + height; right = x + width;
         max_interval = kOneFrameMS * 3;
         max_unit_interval = UnitFrameInterval sw max_interval
     in [MoveTo x bottom,
         LineTo x (y + height * (1 - UnitHeight sw (laps sw ! 0) max_unit_interval))]
        @ graph_samples sw rect max_unit_interval [0..<kMaxSamples] 0
        @ [LineTo right
             (y + height * (1 - UnitHeight sw (laps sw ! (kMaxSamples - 1)) max_unit_interval)),
           LineTo right bottom,
           ClosePath])"

text \<open>
  Lines 74 to 94: the horizontal markers. \<open>max_interval\<close> is a parameter here;
  \<open>Visualize\<close> passes \<open>kOneFrameMS * 3\<close>. \<open>static_cast<size_t>\<close> of a positive
  double drops the fraction.
\<close>

definition horizontal_markers :: "Stopwatch \<Rightarrow> SkRect \<Rightarrow> real \<Rightarrow> DlPaint \<Rightarrow> draw_op list" where
  "horizontal_markers sw rect max_interval paint =
    (let x = rect_x rect; y = rect_y rect;
         height = rect_height rect; right = x + rect_width rect;
         max_unit_interval = UnitFrameInterval sw max_interval
     in if max_interval > kOneFrameMS then
          (let computed = nat \<lfloor>max_interval / kOneFrameMS\<rfloor>;
               frame_marker_count = (if computed > kMaxFrameMarkers then 1 else computed)
           in map (\<lambda>frame_index.
                    let frame_height = height *
                          (1 - UnitFrameInterval sw (real (frame_index + 1) * kOneFrameMS)
                                 / max_unit_interval)
                    in DrawLine (x, y + frame_height) (right, y + frame_height) paint)
                [0..<frame_marker_count])
        else [])"

text \<open>Lines 19 to 113: the draw calls of \<open>DlStopwatch::Visualize\<close>, in order.\<close>

definition Visualize :: "Stopwatch \<Rightarrow> SkRect \<Rightarrow> draw_op list" where
  "Visualize sw rect =
    (let background = default_paint\<lparr>color := 0x99FFFFFF\<rparr>;
         x = rect_x rect; y = rect_y rect;
         width = rect_width rect; height = rect_height rect;
         bottom = y + height;
         max_interval = kOneFrameMS * 3;
         sample_unit_width = 1 / real kMaxSamples;
         graph = background\<lparr>color := 0xAA0000FF\<rparr>;
         hairline = graph\<lparr>stroke_width := 0, draw_style := kStroke, color := 0xCC000000\<rparr>;
         marker = hairline\<lparr>draw_style := kStroke,
                    color := (if UnitFrameInterval sw (last_lap sw) > 1
                              then 0xFFFF0000 else 0xFF00FF00)\<rparr>;
         sample_x = x + width * (real (current_sample sw) / real kMaxSamples)
     in [DrawRect rect background, DrawPath (graph_path sw rect) graph]
        @ horizontal_markers sw rect max_interval hairline
        @ [DrawRect \<lparr>fLeft = sample_x, fTop = y,
                     fRight = sample_x + width * sample_unit_width, fBottom = bottom\<rparr>
             marker])"

fun is_draw_line :: "draw_op \<Rightarrow> bool" where
  "is_draw_line (DrawLine p q paint) = True"
| "is_draw_line d = False"





section \<open>Properties of the bridge\<close>

subsection \<open>Auxiliary facts\<close>

lemmas concrete_defs = env_ok_def env_no_display_def env_no_window_def env_attach_fails_def
  bounds_640x480_def
  fresh_def new_bridge_def desc_640x480_def frame_ok_def frame_no_buffer_def
  frame_bad_import_def

lemmas model_defs = ProcessFrame_def present_surface_def setup_steps_def setup_egl_def
  setup_jni_def Attach_base_def emit_def abort_def setup_succeeds_def OnImageAvailable_def
  make_descriptor_def Detach_def Let_def


lemmas float32_defs = float_to_int32_def float32_round_def float32_exponent_def
  round_half_even_def eval_nat_numeral

lemma emit_simps:
  "fst (emit es r) = fst r"
  "fst (snd (emit es r)) = es @ fst (snd r)"
  "snd (snd (emit es r)) = snd (snd r)"
  by (simp_all add: emit_def)

lemma abort_simps:
  "fst (abort b msg) = b"
  "fst (snd (abort b msg)) = [LogError msg]"
  "snd (snd (abort b msg)) = False"
  by (simp_all add: abort_def)

lemma setup_jni_bridge:
  "fst (setup_jni env h b) = (if snd (snd (setup_jni env h b)) then Attach_base b else b)"
  by (simp add: setup_jni_def emit_simps abort_simps split: option.splits)

lemma setup_jni_events:
  "filter is_present (fst (snd (setup_jni env h b))) = []"
  "filter is_new_reader (fst (snd (setup_jni env h b))) = []"
  by (simp_all add: setup_jni_def emit_simps abort_simps split: option.splits)

lemma setup_egl_fields:
  "texture_id (fst (setup_egl env window b)) = texture_id b"
  "surface_texture (fst (setup_egl env window b)) = surface_texture b"
  "impeller_context (fst (setup_egl env window b)) = impeller_context b"
  "texture (fst (setup_egl env window b)) = texture b"
  "dl_image (fst (setup_egl env window b)) = dl_image b"
  "state (fst (setup_egl env window b)) =
     (if snd (snd (setup_egl env window b)) then kAttached else state b)"
  by (simp_all add: setup_egl_def Let_def emit_simps abort_simps setup_jni_bridge Attach_base_def
      split: option.splits)

lemma setup_egl_surface:
  "snd (snd (setup_egl env window b)) \<Longrightarrow>
     surface (fst (setup_egl env window b)) = create_surface env \<and> create_surface env \<noteq> None"
  by (simp add: setup_egl_def Let_def emit_simps abort_simps setup_jni_bridge Attach_base_def
      split: option.splits if_splits)

lemma setup_egl_events:
  "filter is_present (fst (snd (setup_egl env window b))) = []"
  "filter is_new_reader (fst (snd (setup_egl env window b))) = []"
  by (simp_all add: setup_egl_def Let_def emit_simps abort_simps setup_jni_events
      split: option.splits)

lemma setup_steps_fields:
  "texture_id (fst (setup_steps env bounds b)) = texture_id b"
  "surface_texture (fst (setup_steps env bounds b)) = surface_texture b"
  "impeller_context (fst (setup_steps env bounds b)) = impeller_context b"
  "texture (fst (setup_steps env bounds b)) = texture b"
  "dl_image (fst (setup_steps env bounds b)) = dl_image b"
  "state (fst (setup_steps env bounds b)) =
     (if snd (snd (setup_steps env bounds b)) then kAttached else state b)"
  by (simp_all add: setup_steps_def emit_simps abort_simps setup_egl_fields
      split: option.splits prod.splits media_status_t.splits)

lemma setup_steps_surface:
  "snd (snd (setup_steps env bounds b)) \<Longrightarrow>
     surface (fst (setup_steps env bounds b)) = create_surface env \<and> create_surface env \<noteq> None"
  by (auto simp add: setup_steps_def emit_simps abort_simps
      split: option.splits prod.splits media_status_t.splits dest: setup_egl_surface)

lemma setup_steps_events:
  "filter is_present (fst (snd (setup_steps env bounds b))) = []"
  "filter is_new_reader (fst (snd (setup_steps env bounds b))) =
     [AImageReader_newWithUsage
        (float_to_int32 (float32_round (fRight bounds - fLeft bounds)))
        (float_to_int32 (float32_round (fBottom bounds - fTop bounds)))
        AIMAGE_FORMAT_RGBA_8888 AHARDWAREBUFFER_USAGE_GPU_SAMPLED_IMAGE 2]"
  "hd (fst (snd (setup_steps env bounds b))) =
     AImageReader_newWithUsage
        (float_to_int32 (float32_round (fRight bounds - fLeft bounds)))
        (float_to_int32 (float32_round (fBottom bounds - fTop bounds)))
        AIMAGE_FORMAT_RGBA_8888 AHARDWAREBUFFER_USAGE_GPU_SAMPLED_IMAGE 2"
  by (simp_all add: setup_steps_def emit_simps abort_simps setup_egl_events
      split: option.splits prod.splits media_status_t.splits)

lemma ProcessFrame_failed:
  assumes "state b = kUninitialized" and "\<not> setup_succeeds env bounds b"
  shows "ProcessFrame env bounds b =
           (Returned, fst (setup_steps env bounds b), fst (snd (setup_steps env bounds b)))"
  using assms by (auto simp add: ProcessFrame_def setup_succeeds_def split: prod.splits)

lemma ProcessFrame_succeeded:
  assumes "state b = kUninitialized" and "setup_succeeds env bounds b"
  shows "\<exists>s. create_surface env = Some s \<and> ProcessFrame env bounds b =
           (Returned, fst (setup_steps env bounds b),
            fst (snd (setup_steps env bounds b)) @ [Present (obj_handle s)])"
proof -
  obtain b' evs ok where R: "setup_steps env bounds b = (b', evs, ok)"
    by (cases "setup_steps env bounds b")
  with assms(2) have ok: "ok" by (simp add: setup_succeeds_def)
  from setup_steps_surface [of env bounds b] R ok
  obtain s where s: "create_surface env = Some s" "surface b' = Some s" by auto
  from setup_steps_fields(6) [of env bounds b] R ok have "state b' = kAttached" by simp
  with R ok s assms(1) show ?thesis
    by (simp add: ProcessFrame_def present_surface_def)
qed

















lemma present_surface_no_setup:
  "state b \<noteq> kUninitialized \<Longrightarrow>
     state (fst (snd (present_surface b []))) \<noteq> kUninitialized
     \<and> filter setup_event (snd (snd (present_surface b []))) = []"
  by (simp add: present_surface_def split: option.splits)

lemma OnImageAvailable_no_setup:
  "state (fst (snd (OnImageAvailable env reader b))) = state b
   \<and> filter setup_event (snd (snd (OnImageAvailable env reader b))) = []"
  by (simp add: OnImageAvailable_def Let_def
      split: option.splits prod.splits media_status_t.splits)

lemma do_call_no_setup:
  "state b \<noteq> kUninitialized \<Longrightarrow>
     state (fst (snd (do_call c b))) \<noteq> kUninitialized
     \<and> filter setup_event (snd (snd (do_call c b))) = []"
proof (cases c)
  case (CallProcessFrame env bounds)
  assume "state b \<noteq> kUninitialized"
  with CallProcessFrame present_surface_no_setup [of b] show ?thesis
    by (simp add: ProcessFrame_def)
next
  case (CallOnImageAvailable env reader)
  assume "state b \<noteq> kUninitialized"
  with CallOnImageAvailable OnImageAvailable_no_setup [of env reader b] show ?thesis
    by simp
next
  case CallDetach
  then show ?thesis by (simp add: Detach_def)
qed

lemma run_no_setup:
  "state b \<noteq> kUninitialized \<Longrightarrow> filter setup_event (snd (snd (run cs b))) = []"
proof (induction cs arbitrary: b)
  case Nil
  then show ?case by simp
next
  case (Cons c cs)
  obtain r b' evs where d: "do_call c b = (r, b', evs)" by (cases "do_call c b")
  from do_call_no_setup [OF Cons.prems, of c] d
  have b': "state b' \<noteq> kUninitialized" and evs: "filter setup_event evs = []" by simp_all
  obtain r' b'' evs' where rest: "run cs b' = (r', b'', evs')" by (cases "run cs b'")
  with Cons.IH [OF b'] have evs': "filter setup_event evs' = []" by simp
  show ?case
  proof (cases r)
    case Returned
    with d evs rest evs' show ?thesis by simp
  next
    case NullDereference
    with d evs show ?thesis by simp
  qed
qed

text \<open>
  C4, as the code has it: after a \<open>ProcessFrame\<close> call that starts in Uninitialized and
  in which every setup step succeeds, the state is Attached, and no later call
  (\<open>ProcessFrame\<close>, \<open>OnImageAvailable\<close> or \<open>Detach\<close>, in any order) performs a
  setup step.
\<close>

theorem setup_only_until_attached:
  assumes "state b = kUninitialized" and "setup_succeeds env bounds b"
  shows "fst (ProcessFrame env bounds b) = Returned
       \<and> state (fst (snd (ProcessFrame env bounds b))) = kAttached
       \<and> filter setup_event (snd (snd (run cs (fst (snd (ProcessFrame env bounds b)))))) = []"
proof -
  from assms(2) have ok: "snd (snd (setup_steps env bounds b))"
    by (simp add: setup_succeeds_def)
  from ProcessFrame_succeeded [OF assms] obtain s where
    "create_surface env = Some s" and
    PF: "ProcessFrame env bounds b =
           (Returned, fst (setup_steps env bounds b),
            fst (snd (setup_steps env bounds b)) @ [Present (obj_handle s)])" by blast
  have st: "state (fst (setup_steps env bounds b)) = kAttached"
    using ok by (simp add: setup_steps_fields)
  then have "state (fst (setup_steps env bounds b)) \<noteq> kUninitialized" by simp
  from run_no_setup [OF this, of cs] PF st show ?thesis by simp
qed

text \<open>
  C4 at a concrete input: a successful setup, then two more frames and a callback.
\<close>

theorem setup_only_until_attached_witness:
  "state fresh = kUninitialized
   \<and> setup_succeeds env_ok bounds_640x480 fresh
   \<and> fst (ProcessFrame env_ok bounds_640x480 fresh) = Returned
   \<and> state (fst (snd (ProcessFrame env_ok bounds_640x480 fresh))) = kAttached
   \<and> filter setup_event
       (snd (snd (run [CallProcessFrame env_ok bounds_640x480,
                       CallOnImageAvailable frame_ok 1,
                       CallProcessFrame env_no_window bounds_640x480]
                  (fst (snd (ProcessFrame env_ok bounds_640x480 fresh)))))) = []"
proof -
  have h1: "state fresh = kUninitialized" by (simp add: concrete_defs)
  have h2: "setup_succeeds env_ok bounds_640x480 fresh"
    by (simp add: concrete_defs model_defs)
  from h1 h2
    setup_only_until_attached [OF h1 h2,
      of "[CallProcessFrame env_ok bounds_640x480, CallOnImageAvailable frame_ok 1,
           CallProcessFrame env_no_window bounds_640x480]"]
  show ?thesis by blast
qed

text \<open>
  C4 as stated fails: setup side effects are not performed at most once over the
  lifetime. An attempt that fails after the reader was created is retried by the next
  call, which creates a second reader (and registers a second listener) before the
  bridge is Attached.
\<close>

theorem retried_setup_creates_reader_twice_counterexample:
  "filter is_new_reader
     (snd (snd (run [CallProcessFrame env_no_window bounds_640x480,
                     CallProcessFrame env_ok bounds_640x480] fresh)))
   = [AImageReader_newWithUsage 640 480 AIMAGE_FORMAT_RGBA_8888
        AHARDWAREBUFFER_USAGE_GPU_SAMPLED_IMAGE 2,
      AImageReader_newWithUsage 640 480 AIMAGE_FORMAT_RGBA_8888
        AHARDWAREBUFFER_USAGE_GPU_SAMPLED_IMAGE 2]
   \<and> state (fst (snd (run [CallProcessFrame env_no_window bounds_640x480,
                     CallProcessFrame env_ok bounds_640x480] fresh))) = kAttached"
  by (simp add: concrete_defs model_defs float32_defs)

text \<open>
  C6: the code at the failing input. A bridge that is detached before any setup has
  worked is in state Detached with no surface; \<open>ProcessFrame\<close> skips the setup block
  and calls \<open>surface->Present()\<close> through the null pointer (line 214).
\<close>

theorem present_without_surface:
  "fst (run [CallDetach, CallProcessFrame env_ok bounds_640x480] fresh) = NullDereference
   \<and> fst (ProcessFrame env_ok bounds_640x480 (fresh\<lparr>state := kDetached\<rparr>)) = NullDereference
   \<and> surface (fresh\<lparr>state := kDetached\<rparr>) = None"
  by (simp add: concrete_defs model_defs)

text \<open>
  C7: a \<open>ProcessFrame\<close> call that starts in Uninitialized first creates the image
  reader, once, with the width \<open>fRight - fLeft\<close> and the height \<open>fBottom - fTop\<close>
  of the bounds (each rounded to a float, then converted to \<open>int32_t\<close>), the RGBA
  8888 format, the GPU-sampled usage flag and a capacity of 2 images.
\<close>

theorem reader_created_from_bounds:
  assumes "state b = kUninitialized"
  shows "hd (snd (snd (ProcessFrame env bounds b))) =
           AImageReader_newWithUsage
             (float_to_int32 (float32_round (fRight bounds - fLeft bounds)))
             (float_to_int32 (float32_round (fBottom bounds - fTop bounds)))
             AIMAGE_FORMAT_RGBA_8888 AHARDWAREBUFFER_USAGE_GPU_SAMPLED_IMAGE 2
       \<and> filter is_new_reader (snd (snd (ProcessFrame env bounds b))) =
           [AImageReader_newWithUsage
             (float_to_int32 (float32_round (fRight bounds - fLeft bounds)))
             (float_to_int32 (float32_round (fBottom bounds - fTop bounds)))
             AIMAGE_FORMAT_RGBA_8888 AHARDWAREBUFFER_USAGE_GPU_SAMPLED_IMAGE 2]"
proof -
  have ne: "fst (snd (setup_steps env bounds b)) \<noteq> []"
    using setup_steps_events(2) [of env bounds b] by auto
  show ?thesis
  proof (cases "setup_succeeds env bounds b")
    case True
    from ProcessFrame_succeeded [OF assms True] obtain s where
      "create_surface env = Some s" and
      "ProcessFrame env bounds b =
           (Returned, fst (setup_steps env bounds b),
            fst (snd (setup_steps env bounds b)) @ [Present (obj_handle s)])" by blast
    with ne show ?thesis by (simp add: setup_steps_events)
  next
    case False
    from ProcessFrame_failed [OF assms False] show ?thesis
      by (simp add: setup_steps_events)
  qed
qed

text \<open>
  C7 at two concrete inputs: bounds from (7.1, 3.3) to (647.1, 483.3), as floats, whose
  float width and height are 640 and 480 (the exact differences are just below), and
  bounds of 640 by 480 at the origin.
\<close>

theorem reader_created_from_bounds_witness:
  "state fresh = kUninitialized
   \<and> fRight bounds_offset - fLeft bounds_offset < 640
   \<and> fBottom bounds_offset - fTop bounds_offset < 480
   \<and> hd (snd (snd (ProcessFrame env_ok bounds_offset fresh))) =
       AImageReader_newWithUsage 640 480 AIMAGE_FORMAT_RGBA_8888
         AHARDWAREBUFFER_USAGE_GPU_SAMPLED_IMAGE 2
   \<and> filter is_new_reader (snd (snd (ProcessFrame env_ok bounds_offset fresh))) =
       [AImageReader_newWithUsage 640 480 AIMAGE_FORMAT_RGBA_8888
         AHARDWAREBUFFER_USAGE_GPU_SAMPLED_IMAGE 2]
   \<and> hd (snd (snd (ProcessFrame env_no_window bounds_640x480 fresh))) =
       AImageReader_newWithUsage 640 480 AIMAGE_FORMAT_RGBA_8888
         AHARDWAREBUFFER_USAGE_GPU_SAMPLED_IMAGE 2"
proof -
  have h: "state fresh = kUninitialized" by (simp add: concrete_defs)
  have below: "fRight bounds_offset - fLeft bounds_offset < 640"
    "fBottom bounds_offset - fTop bounds_offset < 480"
    by (simp_all add: bounds_offset_def)
  have w: "float_to_int32 (float32_round (fRight bounds_offset - fLeft bounds_offset)) = 640"
    and ht: "float_to_int32 (float32_round (fBottom bounds_offset - fTop bounds_offset)) = 480"
    by (simp_all add: bounds_offset_def float32_defs)
  have w': "float_to_int32 (float32_round (fRight bounds_640x480 - fLeft bounds_640x480)) = 640"
    and ht': "float_to_int32 (float32_round (fBottom bounds_640x480 - fTop bounds_640x480)) = 480"
    by (simp_all add: bounds_640x480_def float32_defs)
  from h below reader_created_from_bounds [OF h, of env_ok bounds_offset] w ht
    reader_created_from_bounds [OF h, of env_no_window bounds_640x480] w' ht'
  show ?thesis by simp
qed

subsection \<open>OnImageAvailable\<close>

lemmas more_defs = desc_wide_def frame_wide_def

text \<open>
  C3: the code at two failing inputs. The callback acquires image 21; when the buffer
  cannot be extracted it logs and returns, and when the import goes through it ends after
  publishing the texture. No \<open>AImage_delete\<close> is in either trace: the acquired image is
  never handed back to the reader.
\<close>

theorem acquired_image_not_released:
  "acquire_latest frame_no_buffer = (AMEDIA_OK, Some 21)
   \<and> snd (snd (OnImageAvailable frame_no_buffer 1 fresh)) =
       [LogError ''::OnImageAvailable'', AImageReader_acquireLatestImage 1,
        AImage_getHardwareBuffer 21, LogError ''Failed to get hardware buffer.'']
   \<and> acquire_latest frame_ok = (AMEDIA_OK, Some 21)
   \<and> AImage_delete 21 \<notin> set (snd (snd (OnImageAvailable frame_ok 1 fresh)))"
  by (simp add: concrete_defs model_defs)

text \<open>
  C5: the code at the failing input. Frame K-1 (buffer 22) is imported into a valid
  source; the source built for frame K (buffer 24) is not valid. Lines 259 and 260 assign
  \<open>texture\<close> and \<open>dl_image\<close> without asking the source, so the texture visible after
  frame K is the invalid one of frame K, not the texture of frame K-1.
\<close>

theorem failed_import_replaces_texture:
  "map_option tex_buffer (texture (fst (snd (OnImageAvailable frame_ok 1 fresh)))) = Some 22
   \<and> map_option tex_source_valid
        (texture (fst (snd (OnImageAvailable frame_ok 1 fresh)))) = Some True
   \<and> source_valid frame_bad_import = False
   \<and> map_option tex_buffer
        (texture (fst (snd (OnImageAvailable frame_bad_import 1
           (fst (snd (OnImageAvailable frame_ok 1 fresh))))))) = Some 24
   \<and> map_option tex_source_valid
        (texture (fst (snd (OnImageAvailable frame_bad_import 1
           (fst (snd (OnImageAvailable frame_ok 1 fresh))))))) = Some False
   \<and> texture (fst (snd (OnImageAvailable frame_bad_import 1
           (fst (snd (OnImageAvailable frame_ok 1 fresh))))))
       \<noteq> texture (fst (snd (OnImageAvailable frame_ok 1 fresh)))"
  by (simp add: concrete_defs model_defs)

lemma sint_small: "w < 0x80000000 \<Longrightarrow> sint (w :: 32 word) = uint w"
proof -
  assume "w < 0x80000000"
  then have "uint w < 2 ^ 31" by (simp add: word_less_def)
  moreover have "- (2 ^ 31) \<le> uint w" by (rule order_trans [of _ 0]) simp_all
  ultimately have "signed_take_bit 31 (uint w) = uint w"
    by (rule signed_take_bit_int_eq_self [rotated])
  then show ?thesis by (simp add: sint_uint)
qed

text \<open>
  C8, as the code has it: when the image and its buffer are obtained, the descriptor
  handed to the texture source (and kept in the texture) has device-private storage, the
  format R8G8B8A8 UNorm, one mip level, shader-read usage, and as its size the
  descriptor's width and height cast to \<open>int\<close>; the cast keeps a width and a height
  below \<open>2^31\<close> as they are.
\<close>

theorem descriptor_of_buffer:
  assumes "acquire_latest env = (AMEDIA_OK, Some img)"
    and "get_hardware_buffer env = (AMEDIA_OK, Some buffer)"
    and "impeller_context b = Some ctx"
  shows "last (snd (snd (OnImageAvailable env reader b))) =
           TextureSource_new
             \<lparr>storage_mode = kDevicePrivate,
              desc_size = (sint (hb_width (describe env)), sint (hb_height (describe env))),
              format = kR8G8B8A8UNormInt, mip_count = 1, usage = kShaderRead\<rparr> buffer
       \<and> map_option tex_desc (texture (fst (snd (OnImageAvailable env reader b)))) =
           Some \<lparr>storage_mode = kDevicePrivate,
              desc_size = (sint (hb_width (describe env)), sint (hb_height (describe env))),
              format = kR8G8B8A8UNormInt, mip_count = 1, usage = kShaderRead\<rparr>
       \<and> (hb_width (describe env) < 0x80000000 \<and> hb_height (describe env) < 0x80000000 \<longrightarrow>
            sint (hb_width (describe env)) = uint (hb_width (describe env))
            \<and> sint (hb_height (describe env)) = uint (hb_height (describe env)))"
  using assms by (simp add: OnImageAvailable_def make_descriptor_def Let_def sint_small)

text \<open>
  C8 at a concrete input: a buffer of 640 by 480.
\<close>

theorem descriptor_of_buffer_witness:
  "acquire_latest frame_ok = (AMEDIA_OK, Some 21)
   \<and> get_hardware_buffer frame_ok = (AMEDIA_OK, Some 22)
   \<and> impeller_context fresh = Some 100
   \<and> last (snd (snd (OnImageAvailable frame_ok 1 fresh))) =
           TextureSource_new
             \<lparr>storage_mode = kDevicePrivate, desc_size = (640, 480),
              format = kR8G8B8A8UNormInt, mip_count = 1, usage = kShaderRead\<rparr> 22"
proof -
  have h1: "acquire_latest frame_ok = (AMEDIA_OK, Some 21)" by (simp add: concrete_defs)
  have h2: "get_hardware_buffer frame_ok = (AMEDIA_OK, Some 22)" by (simp add: concrete_defs)
  have h3: "impeller_context fresh = Some 100" by (simp add: concrete_defs)
  have d: "sint (hb_width (describe frame_ok)) = 640" "sint (hb_height (describe frame_ok)) = 480"
    by (simp_all add: concrete_defs)
  from h1 h2 h3 d descriptor_of_buffer [OF h1 h2 h3, of 1] show ?thesis by simp
qed

text \<open>
  C8 as stated fails at the edge of the type: a descriptor width of \<open>2^31\<close> gives a
  texture width of \<open>-2^31\<close>, which is not the descriptor's width.
\<close>

theorem descriptor_width_wraps_counterexample:
  "acquire_latest frame_wide = (AMEDIA_OK, Some 21)
   \<and> get_hardware_buffer frame_wide = (AMEDIA_OK, Some 22)
   \<and> uint (hb_width (describe frame_wide)) = 2147483648
   \<and> map_option (\<lambda>t. fst (desc_size (tex_desc t)))
        (texture (fst (snd (OnImageAvailable frame_wide 1 fresh)))) = Some (- 2147483648)"
  by (simp add: concrete_defs more_defs model_defs)

section \<open>Properties of the stopwatch overlay\<close>

lemma marker_count_three: "nat \<lfloor>kOneFrameMS * 3 / kOneFrameMS\<rfloor> = 3"
  by (simp add: kOneFrameMS_def)

lemma horizontal_markers_length:
  "length (horizontal_markers sw rect max_interval paint) =
     (if kOneFrameMS < max_interval
      then (if kMaxFrameMarkers < nat \<lfloor>max_interval / kOneFrameMS\<rfloor> then 1
            else nat \<lfloor>max_interval / kOneFrameMS\<rfloor>)
      else 0)"
  by (simp add: horizontal_markers_def Let_def)

lemma filter_draw_line_markers:
  "filter is_draw_line (horizontal_markers sw rect max_interval paint) =
     horizontal_markers sw rect max_interval paint"
  by (simp add: horizontal_markers_def Let_def filter_map comp_def)

text \<open>
  C9: the number of horizontal markers is the computed count
  (\<open>max_interval / kOneFrameMS\<close>, fraction dropped) when that is at most 8 and exactly
  1 when it is more, so never more than 8; \<open>Visualize\<close>, whose \<open>max_interval\<close> is
  three frames, draws 3 marker lines for every stopwatch and every rectangle.
\<close>

theorem frame_markers_reset_to_one:
  "length (horizontal_markers sw rect max_interval paint) =
     (if kOneFrameMS < max_interval
      then (if kMaxFrameMarkers < nat \<lfloor>max_interval / kOneFrameMS\<rfloor> then 1
            else nat \<lfloor>max_interval / kOneFrameMS\<rfloor>)
      else 0)
   \<and> length (horizontal_markers sw rect max_interval paint) \<le> kMaxFrameMarkers
   \<and> length (filter is_draw_line (Visualize sw rect)) = 3"
proof -
  have a: "length (horizontal_markers sw rect max_interval paint) \<le> kMaxFrameMarkers"
    by (simp add: horizontal_markers_length kMaxFrameMarkers_def)
  have "kOneFrameMS < kOneFrameMS * 3" by (simp add: kOneFrameMS_def)
  then have b: "length (filter is_draw_line (Visualize sw rect)) = 3"
    by (simp add: Visualize_def Let_def filter_draw_line_markers horizontal_markers_length
        marker_count_three kMaxFrameMarkers_def)
  from a b show ?thesis by (simp add: horizontal_markers_length)
qed










end
